theory Spec2Isabelle
  imports Complex_Main
begin

section \<open>Numbers, images and canvases\<close>

text \<open>
  A JavaScript number is an IEEE 754 double. A finite double is modelled by the rational
  it stands for (the sign of zero is not kept), and Infinity and NaN by the one value
  \<open>NonFinite\<close>.
\<close>

datatype number = Fin rat | NonFinite

text \<open>The number of binary digits of a positive integer.\<close>

function bit_length :: "int \<Rightarrow> int" where
  "bit_length p = (if p \<le> 0 then 0 else bit_length (p div 2) + 1)"
  by pat_completeness auto
termination
  by (relation "measure nat") auto

declare bit_length.simps [simp del]

text \<open>For positive \<open>p\<close> and \<open>q\<close>, the integer \<open>k\<close> with \<open>2^k \<le> p / q < 2^(k+1)\<close>.\<close>

definition floor_log2 :: "int \<Rightarrow> int \<Rightarrow> int" where
  "floor_log2 p q =
     (let d = bit_length p - bit_length q
      in if (if 0 \<le> d then q * 2 ^ nat d \<le> p else q \<le> p * 2 ^ nat (- d)) then d else d - 1)"

text \<open>For positive \<open>q\<close>, the integer nearest to \<open>p / q\<close>, the even one of the two on a tie.\<close>

definition round_half_even :: "int \<Rightarrow> int \<Rightarrow> int" where
  "round_half_even p q =
     (let f = p div q; r = p mod q
      in if 2 * r < q then f
         else if q < 2 * r then f + 1
         else if even f then f else f + 1)"

text \<open>
  Rounding of an exact result to the nearest double, ties to even: the result is
  \<open>m * 2^e\<close> with \<open>m\<close> of at most 53 bits and \<open>e\<close> not below -1074 (the subnormal
  exponent); a result of \<open>2^1024\<close> or more is Infinity.
\<close>

definition to_double :: "rat \<Rightarrow> number" where
  "to_double v =
     (if v = 0 then Fin 0
      else
        case quotient_of \<bar>v\<bar> of
          (p, q) \<Rightarrow>
            let e = max (floor_log2 p q - 52) (- 1074);
                m = (if 0 \<le> e then round_half_even p (q * 2 ^ nat e)
                     else round_half_even (p * 2 ^ nat (- e)) q);
                r = (if 0 \<le> e then of_int m * 2 ^ nat e else of_int m / 2 ^ nat (- e))
            in if 971 < e \<or> (e = 971 \<and> 9007199254740992 \<le> m) then NonFinite
               else Fin (if v < 0 then - r else r))"

text \<open>
  The operators the cropper uses, on finite operands or on results of earlier operations:
  each rounds the exact result. A quotient by zero is Infinity or NaN, and so is every
  product with such a factor.
\<close>

definition js_sub :: "rat \<Rightarrow> rat \<Rightarrow> number" where
  "js_sub a b = to_double (a - b)"

fun js_abs :: "number \<Rightarrow> number" where
  "js_abs (Fin a) = Fin \<bar>a\<bar>"
| "js_abs NonFinite = NonFinite"

definition js_div :: "rat \<Rightarrow> rat \<Rightarrow> number" where
  "js_div a b = (if b = 0 then NonFinite else to_double (a / b))"

fun js_mul :: "number \<Rightarrow> number \<Rightarrow> number" where
  "js_mul (Fin a) (Fin b) = to_double (a * b)"
| "js_mul a b = NonFinite"

text \<open>
  The conversion of a number to the \<open>unsigned long\<close> of a DOM attribute such as
  \<open>canvas.width\<close>: NaN and the infinities become 0, any other value is truncated towards
  zero and taken modulo \<open>2^32\<close>.
\<close>

fun to_unsigned_long :: "number \<Rightarrow> nat" where
  "to_unsigned_long (Fin v) = nat ((if v < 0 then - \<lfloor>- v\<rfloor> else \<lfloor>v\<rfloor>) mod 2 ^ 32)"
| "to_unsigned_long NonFinite = 0"

text \<open>\<open>OriginalImage\<close> of App.tsx: a data URI and a MIME type.\<close>

record OriginalImage =
  url :: string
  mimeType :: string

text \<open>
  An image element: its source, its displayed size (\<open>width\<close>, \<open>height\<close>) and the size of
  the bitmap itself (\<open>naturalWidth\<close>, \<open>naturalHeight\<close>), all of them integers in the DOM.
\<close>

record html_image =
  img_src :: string
  img_width :: nat
  img_height :: nat
  naturalWidth :: nat
  naturalHeight :: nat

text \<open>
  A canvas is the size of its bitmap, as \<open>canvas.width\<close> and \<open>canvas.height\<close> hold it after
  the code's assignments, and the calls made on its 2D context, in order. The arguments of
  the calls are the numbers the code passes. \<open>SetFont size family\<close> stands for the
  assignment of the template \<^verbatim>\<open>`${size}px ${family}`\<close> to \<open>ctx.font\<close>.
\<close>

datatype canvas_op =
    DrawImage html_image rat rat
  | DrawImageRegion html_image number number number number number number number number
  | SetFont int string
  | SetFillStyle string
  | SetShadowColor string
  | SetShadowBlur rat
  | SetShadowOffsetX rat
  | SetShadowOffsetY rat
  | SetTextAlign string
  | SetTextBaseline string
  | FillText string rat rat
  | FillRect rat rat rat rat

record canvas =
  cv_width :: number
  cv_height :: number
  cv_ops :: "canvas_op list"

text \<open>
  The browser's encoder \<open>canvas.toDataURL(type, quality)\<close> is a parameter of every function
  that calls it: \<open>toDataURL cv type quality\<close>, the quality \<open>None\<close> where the code passes none.
\<close>

type_synonym encoder = "canvas \<Rightarrow> string \<Rightarrow> rat option \<Rightarrow> string"

section \<open>The cropper\<close>

record point =
  pt_x :: rat
  pt_y :: rat

record rect =
  rect_x :: rat
  rect_y :: rat
  rect_width :: number
  rect_height :: number

record cropper =
  isCropping :: bool
  cropStart :: point
  cropEnd :: point

definition cropper_init :: cropper where
  "cropper_init =
     \<lparr>isCropping = False, cropStart = \<lparr>pt_x = 0, pt_y = 0\<rparr>, cropEnd = \<lparr>pt_x = 0, pt_y = 0\<rparr>\<rparr>"

definition getCropRect :: "cropper \<Rightarrow> rect option" where
  "getCropRect c =
     (if \<not> isCropping c \<and> pt_x (cropStart c) = 0 \<and> pt_x (cropEnd c) = 0 then None
      else
        let x = min (pt_x (cropStart c)) (pt_x (cropEnd c));
            y = min (pt_y (cropStart c)) (pt_y (cropEnd c));
            width = js_abs (js_sub (pt_x (cropStart c)) (pt_x (cropEnd c)));
            height = js_abs (js_sub (pt_y (cropStart c)) (pt_y (cropEnd c)))
        in if width = Fin 0 \<or> height = Fin 0 then None
           else Some \<lparr>rect_x = x, rect_y = y, rect_width = width, rect_height = height\<rparr>)"

text \<open>
  What a click on Confirm Crop does: \<open>UseFullImage i\<close> and \<open>Cropped cv i\<close> call
  \<open>onCropComplete\<close> with \<open>i\<close> (the second after drawing the canvas \<open>cv\<close>); \<open>NoContext\<close> is the
  return without a call when the canvas has no 2D context.
\<close>

datatype crop_result =
    UseFullImage OriginalImage
  | NoContext
  | Cropped canvas OriginalImage

text \<open>
  \<open>imgRef\<close> is \<open>imgRef.current\<close>, \<open>has_ctx\<close> says whether \<open>canvas.getContext('2d')\<close> is
  non-null, \<open>imageUrl\<close> is the component's property.
\<close>

definition handleConfirmCrop ::
  "encoder \<Rightarrow> bool \<Rightarrow> html_image option \<Rightarrow> string \<Rightarrow> cropper \<Rightarrow> crop_result" where
  "handleConfirmCrop toDataURL has_ctx imgRef imageUrl c =
     (case (imgRef, getCropRect c) of
        (Some img, Some cropRect) \<Rightarrow>
          if rect_width cropRect = Fin 0 \<or> rect_height cropRect = Fin 0
          then UseFullImage \<lparr>url = imageUrl, mimeType = ''image/png''\<rparr>
          else
            let scaleX = js_div (of_nat (naturalWidth img)) (of_nat (img_width img));
                scaleY = js_div (of_nat (naturalHeight img)) (of_nat (img_height img));
                sourceX = js_mul (Fin (rect_x cropRect)) scaleX;
                sourceY = js_mul (Fin (rect_y cropRect)) scaleY;
                sourceWidth = js_mul (rect_width cropRect) scaleX;
                sourceHeight = js_mul (rect_height cropRect) scaleY
            in if \<not> has_ctx then NoContext
               else
                 let cv = \<lparr>cv_width = Fin (of_nat (to_unsigned_long sourceWidth)),
                           cv_height = Fin (of_nat (to_unsigned_long sourceHeight)),
                           cv_ops = [DrawImageRegion img sourceX sourceY sourceWidth sourceHeight
                                       (Fin 0) (Fin 0) sourceWidth sourceHeight]\<rparr>
                 in Cropped cv \<lparr>url = toDataURL cv ''image/png'' None, mimeType = ''image/png''\<rparr>
      | _ \<Rightarrow> UseFullImage \<lparr>url = imageUrl, mimeType = ''image/png''\<rparr>)"

text \<open>The image handed to \<open>onCropComplete\<close>, if the handler calls it.\<close>

fun crop_output :: "crop_result \<Rightarrow> OriginalImage option" where
  "crop_output (UseFullImage i) = Some i"
| "crop_output NoContext = None"
| "crop_output (Cropped cv i) = Some i"

section \<open>Image ingestion\<close>

text \<open>
  Strings are lists of 8-bit characters. A file is its MIME type; what the reader makes of
  its contents is the reader's event: \<open>ReaderLoad r\<close> is the load event with
  \<open>reader.result = r\<close> (the data URI that \<open>readAsDataURL\<close> produces), \<open>ReaderError e\<close> the
  error event, \<open>ReaderSilent\<close> a reader that fires neither.
\<close>

record File =
  file_type :: string

datatype reader_event = ReaderLoad string | ReaderError string | ReaderSilent

datatype ('a, 'e) promise = Resolved 'a | Rejected 'e | Pending

definition fileToDataUrl :: "File \<Rightarrow> reader_event \<Rightarrow> (OriginalImage, string) promise" where
  "fileToDataUrl f ev =
     (case ev of
        ReaderLoad r \<Rightarrow> Resolved \<lparr>url = r, mimeType = file_type f\<rparr>
      | ReaderError e \<Rightarrow> Rejected e
      | ReaderSilent \<Rightarrow> Pending)"

section \<open>The text overlay\<close>

record overlay_options =
  opt_fontFamily :: string
  opt_fontSize :: int
  opt_textColor :: string
  opt_textPosition :: string

text \<open>
  The \<open>switch\<close> on \<open>options.textPosition\<close>: the values assigned to \<open>ctx.textAlign\<close>,
  \<open>ctx.textBaseline\<close>, \<open>x\<close> and \<open>y\<close>, for a canvas of width \<open>w\<close> and height \<open>h\<close>. The
  coordinates are the exact values of the expressions; they are only handed to \<open>fillText\<close>.
\<close>

definition textPlacement :: "string \<Rightarrow> rat \<Rightarrow> rat \<Rightarrow> string \<times> string \<times> rat \<times> rat" where
  "textPlacement textPosition w h =
     (let padding = min w h * (5 / 100) in
      if textPosition = ''top-left'' then (''left'', ''top'', padding, padding)
      else if textPosition = ''top-center'' then (''center'', ''top'', w / 2, padding)
      else if textPosition = ''top-right'' then (''right'', ''top'', w - padding, padding)
      else if textPosition = ''middle-left'' then (''left'', ''middle'', padding, h / 2)
      else if textPosition = ''middle-right'' then (''right'', ''middle'', w - padding, h / 2)
      else if textPosition = ''bottom-left'' then (''left'', ''bottom'', padding, h - padding)
      else if textPosition = ''bottom-center'' then (''center'', ''bottom'', w / 2, h - padding)
      else if textPosition = ''bottom-right'' then (''right'', ''bottom'', w - padding, h - padding)
      else (''center'', ''middle'', w / 2, h / 2))"

text \<open>The canvas that the \<open>onload\<close> handler of \<open>applyTextOverlay\<close> draws for the loaded image.\<close>

definition overlayCanvas :: "html_image \<Rightarrow> string \<Rightarrow> overlay_options \<Rightarrow> canvas" where
  "overlayCanvas img text options =
     (let w = of_nat (img_width img); h = of_nat (img_height img) in
      case textPlacement (opt_textPosition options) w h of
        (align, baseline, x, y) \<Rightarrow>
          \<lparr>cv_width = Fin w, cv_height = Fin h,
           cv_ops =
             [DrawImage img 0 0,
              SetFont (opt_fontSize options) (opt_fontFamily options),
              SetFillStyle (opt_textColor options),
              SetShadowColor ''rgba(0, 0, 0, 0.7)'',
              SetShadowBlur 5,
              SetShadowOffsetX 2,
              SetShadowOffsetY 2,
              SetTextAlign align,
              SetTextBaseline baseline,
              FillText text x y]\<rparr>)"

text \<open>
  \<open>load\<close> is the browser decoding a source into an image (\<open>None\<close>: the error event). The
  result is the rejection's message or the data URI the promise resolves with.
\<close>

definition applyTextOverlay ::
  "(string \<Rightarrow> html_image option) \<Rightarrow> bool \<Rightarrow> encoder \<Rightarrow> string \<Rightarrow> string \<Rightarrow> overlay_options
     \<Rightarrow> string + string" where
  "applyTextOverlay load has_ctx toDataURL base64Image text options =
     (case load base64Image of
        None \<Rightarrow> Inl ''Failed to load image for text overlay.''
      | Some img \<Rightarrow>
          if \<not> has_ctx then Inl ''Could not get canvas context''
          else Inr (toDataURL (overlayCanvas img text options) ''image/png'' None))"

section \<open>The editing service\<close>

text \<open>
  \<open>ImageData\<close> and \<open>GeneratedImageData\<close> of the service module have the same shape. The
  data is \<open>None\<close> where the value is \<open>undefined\<close> at run time.
\<close>

record ImageData =
  base64Data :: "string option"
  inlineMimeType :: string

datatype Part = InlineData ImageData | Text string

text \<open>
  What the call of \<open>generateContent\<close> comes to: an \<open>Error\<close> thrown with a message; another
  value thrown; a response on which \<open>response.candidates[0].content.parts\<close> cannot be read
  or iterated (no candidates, no content or no parts), so that the loop throws a
  \<open>TypeError\<close>, whose message is the engine's; or a response with the parts of its first
  candidate.
\<close>

datatype svc_result = Threw string | ThrewOther | Unreadable string | Responded "Part list"

definition newlines :: string where
  "newlines = [CHR 0x0A, CHR 0x0A]"

text \<open>
  The parts of the request, as \<open>editImageWithGemini\<close> assembles them before the call. The
  model name and the response modality are the same in every call and are left out.
\<close>

definition request_parts :: "ImageData \<Rightarrow> string \<Rightarrow> ImageData option \<Rightarrow> string \<Rightarrow> Part list" where
  "request_parts originalImage prompt backgroundImage aspectRatio =
     (let parts0 = [InlineData originalImage];
          parts1 = (case backgroundImage of
                      Some b \<Rightarrow> parts0 @ [InlineData b]
                    | None \<Rightarrow> parts0);
          instruction =
            (if aspectRatio = ''16:9'' \<or> aspectRatio = ''4:3''
             then newlines @ ''Please generate the output image with a '' @ aspectRatio
                    @ '' aspect ratio.''
             else newlines @ ''Please preserve the aspect ratio of the first image.'');
          finalPrompt = prompt @ instruction
      in parts1 @ [Text finalPrompt])"

text \<open>The loop over the parts of the response: the first inline part whose MIME type starts with \<open>image/\<close>.\<close>

fun first_image :: "Part list \<Rightarrow> ImageData option" where
  "first_image [] = None"
| "first_image (InlineData d # ps) =
     (if take 6 (inlineMimeType d) = ''image/'' then Some d else first_image ps)"
| "first_image (Text t # ps) = first_image ps"

text \<open>
  What \<open>editImageWithGemini\<close> does once the call has come back: \<open>Inl\<close> is the message of the
  \<open>Error\<close> it rejects with. Everything thrown inside its \<open>try\<close> block, the \<open>TypeError\<close> of
  an unreadable response and its own \<open>No image was generated\<close> error included, reaches the
  \<open>catch\<close> block, which rejects with the message of an \<open>Error\<close> and with a fixed message
  for any other value.
\<close>

definition editImageWithGemini_settle :: "svc_result \<Rightarrow> string + ImageData" where
  "editImageWithGemini_settle r =
     (case r of
        Threw m \<Rightarrow> Inl m
      | ThrewOther \<Rightarrow> Inl ''An unknown error occurred during image generation.''
      | Unreadable m \<Rightarrow> Inl m
      | Responded ps \<Rightarrow>
          (case first_image ps of
             Some d \<Rightarrow> Inr d
           | None \<Rightarrow> Inl ''No image was generated. The model may not have been able to fulfill the request. Please try a different prompt.''))"

definition editImageWithGemini ::
  "(Part list \<Rightarrow> svc_result) \<Rightarrow> ImageData \<Rightarrow> string \<Rightarrow> ImageData option \<Rightarrow> string
     \<Rightarrow> string + ImageData" where
  "editImageWithGemini generateContent originalImage prompt backgroundImage aspectRatio =
     editImageWithGemini_settle
       (generateContent (request_parts originalImage prompt backgroundImage aspectRatio))"

section \<open>String helpers of the language\<close>

text \<open>\<open>s.split(c)\<close> for a separator of one character, and the element at index 1 of the result.\<close>

fun split_on :: "char \<Rightarrow> string \<Rightarrow> string list" where
  "split_on c [] = [[]]"
| "split_on c (x # xs) =
     (if x = c then [] # split_on c xs
      else (case split_on c xs of
              [] \<Rightarrow> [[x]]
            | y # ys \<Rightarrow> (x # y) # ys))"

fun index1 :: "'a list \<Rightarrow> 'a option" where
  "index1 (a # b # xs) = Some b"
| "index1 xs = None"

text \<open>A template literal prints \<open>undefined\<close> for an undefined value.\<close>

fun template_str :: "string option \<Rightarrow> string" where
  "template_str None = ''undefined''"
| "template_str (Some t) = t"

text \<open>\<open>s.trim()\<close>: the white space of the 8-bit range is removed at both ends.\<close>

definition is_space :: "char \<Rightarrow> bool" where
  "is_space c = (c \<in> set [CHR 0x09, CHR 0x0A, CHR 0x0B, CHR 0x0C, CHR 0x0D, CHR 0x20, CHR 0xA0])"

definition js_trim :: "string \<Rightarrow> string" where
  "js_trim t = rev (dropWhile is_space (rev (dropWhile is_space t)))"

text \<open>A value of type \<open>string | null\<close> is falsy when it is null or the empty string.\<close>

fun falsy :: "string option \<Rightarrow> bool" where
  "falsy None = True"
| "falsy (Some t) = (t = [])"

section \<open>The application state\<close>

text \<open>
  The state variables of \<open>App\<close>, and the values of the two file inputs behind
  \<open>fileInputRef\<close> and \<open>backgroundInputRef\<close> (\<open>None\<close> while the reference is null).
\<close>

record app =
  uncroppedImage :: "string option"
  originalImage :: "OriginalImage option"
  backgroundImage :: "OriginalImage option"
  imageBeforeText :: "string option"
  editedImage :: "string option"
  prompt :: string
  isLoading :: bool
  error :: "string option"
  textOverlay :: string
  fontFamily :: string
  fontSize :: int
  textColor :: string
  textPosition :: string
  isTextToolsVisible :: bool
  outputFormat :: string
  aspectRatio :: string
  fileInput :: "string option"
  backgroundInput :: "string option"

definition app_init :: app where
  "app_init =
     \<lparr>uncroppedImage = None, originalImage = None, backgroundImage = None,
      imageBeforeText = None, editedImage = None, prompt = [], isLoading = False,
      error = None, textOverlay = [], fontFamily = ''Arial'', fontSize = 48,
      textColor = ''#ffffff'', textPosition = ''center'', isTextToolsVisible = False,
      outputFormat = ''png'', aspectRatio = ''original'',
      fileInput = Some [], backgroundInput = None\<rparr>"

definition resetEditorState :: "app \<Rightarrow> app" where
  "resetEditorState s =
     s\<lparr>editedImage := None, imageBeforeText := None, error := None, prompt := [],
       textOverlay := [], isTextToolsVisible := False, outputFormat := ''png'',
       aspectRatio := ''original'', textPosition := ''center''\<rparr>"

text \<open>\<open>chosen\<close> is \<open>event.target.files?.[0]\<close>, \<open>ev\<close> what the file reader does with it.\<close>

definition handleFileChange :: "File option \<Rightarrow> reader_event \<Rightarrow> app \<Rightarrow> app" where
  "handleFileChange chosen ev s =
     (case chosen of
        None \<Rightarrow> s
      | Some f \<Rightarrow>
          (case fileToDataUrl f ev of
             Resolved imageData \<Rightarrow>
               resetEditorState (s\<lparr>uncroppedImage := Some (url imageData), originalImage := None\<rparr>)
           | Rejected e \<Rightarrow> s\<lparr>error := Some ''Failed to load image. Please try another file.''\<rparr>
           | Pending \<Rightarrow> s))"

definition handleCropComplete :: "OriginalImage \<Rightarrow> app \<Rightarrow> app" where
  "handleCropComplete croppedImage s =
     s\<lparr>originalImage := Some croppedImage, uncroppedImage := None\<rparr>"

definition handleCropCancel :: "app \<Rightarrow> app" where
  "handleCropCancel s =
     s\<lparr>uncroppedImage := None,
       fileInput := (case fileInput s of None \<Rightarrow> None | Some v \<Rightarrow> Some [])\<rparr>"

definition background_prompt :: string where
  "background_prompt = ''Replace the background of the first image with the second image.''"

definition handleBackgroundFileChange :: "File option \<Rightarrow> reader_event \<Rightarrow> app \<Rightarrow> app" where
  "handleBackgroundFileChange chosen ev s =
     (case chosen of
        None \<Rightarrow> s
      | Some f \<Rightarrow>
          (case fileToDataUrl f ev of
             Resolved imageData \<Rightarrow>
               s\<lparr>backgroundImage := Some imageData, prompt := background_prompt\<rparr>
           | Rejected e \<Rightarrow>
               s\<lparr>error := Some ''Failed to load background image. Please try another file.''\<rparr>
           | Pending \<Rightarrow> s))"

definition removeBackgroundImage :: "app \<Rightarrow> app" where
  "removeBackgroundImage s =
     (let s1 = s\<lparr>backgroundImage := None\<rparr>;
          s2 = (if prompt s = background_prompt then s1\<lparr>prompt := []\<rparr> else s1)
      in case backgroundInput s of
           None \<Rightarrow> s2
         | Some v \<Rightarrow> s2\<lparr>backgroundInput := Some []\<rparr>)"

section \<open>Generating an edit\<close>

text \<open>The payload sent for an image: the text after the first comma of its data URI, and its MIME type.\<close>

definition payload_of :: "OriginalImage \<Rightarrow> ImageData" where
  "payload_of i =
     \<lparr>base64Data = index1 (split_on (CHR '','') (url i)), inlineMimeType = mimeType i\<rparr>"

text \<open>
  \<open>handleGenerate\<close> up to the point where it waits for the service: the new state and
  the request it has sent, if it has sent one.
\<close>

definition handleGenerate_start :: "app \<Rightarrow> app \<times> Part list option" where
  "handleGenerate_start s =
     (case (prompt s = [], originalImage s) of
        (False, Some oi) \<Rightarrow>
          (s\<lparr>isLoading := True, error := None, editedImage := None, imageBeforeText := None\<rparr>,
           Some (request_parts (payload_of oi) (prompt s)
                   (map_option payload_of (backgroundImage s)) (aspectRatio s)))
      | _ \<Rightarrow> (s\<lparr>error := Some ''Please enter a prompt and upload an image first.''\<rparr>, None))"

text \<open>\<open>handleGenerate\<close> from the point where the call has come back with \<open>r\<close>.\<close>

definition handleGenerate_settle :: "svc_result \<Rightarrow> app \<Rightarrow> app" where
  "handleGenerate_settle r s =
     (case editImageWithGemini_settle r of
        Inr generatedImage \<Rightarrow>
          s\<lparr>imageBeforeText :=
               Some (''data:'' @ inlineMimeType generatedImage @ '';base64,''
                       @ template_str (base64Data generatedImage)),
            isLoading := False\<rparr>
      | Inl errorMessage \<Rightarrow>
          s\<lparr>error := Some (''Generation failed: '' @ errorMessage), isLoading := False\<rparr>)"

text \<open>A whole run of \<open>handleGenerate\<close> with nothing else happening while it waits.\<close>

definition handleGenerate :: "(Part list \<Rightarrow> svc_result) \<Rightarrow> app \<Rightarrow> app" where
  "handleGenerate generateContent s =
     (case handleGenerate_start s of
        (s1, None) \<Rightarrow> s1
      | (s1, Some req) \<Rightarrow> handleGenerate_settle (generateContent req) s1)"

section \<open>The reactive text overlay\<close>

text \<open>One run of the effect's \<open>applyText\<close>, to its end.\<close>

definition applyText ::
  "(string \<Rightarrow> html_image option) \<Rightarrow> bool \<Rightarrow> encoder \<Rightarrow> app \<Rightarrow> app" where
  "applyText load has_ctx toDataURL s =
     (case imageBeforeText s of
        None \<Rightarrow> s\<lparr>editedImage := None\<rparr>
      | Some before \<Rightarrow>
          if before = [] then s\<lparr>editedImage := None\<rparr>
          else if js_trim (textOverlay s) \<noteq> [] then
            (case applyTextOverlay load has_ctx toDataURL before (textOverlay s)
                    \<lparr>opt_fontFamily = fontFamily s, opt_fontSize = fontSize s,
                     opt_textColor = textColor s, opt_textPosition = textPosition s\<rparr> of
               Inr finalImage \<Rightarrow> s\<lparr>editedImage := Some finalImage\<rparr>
             | Inl e \<Rightarrow> s\<lparr>error := Some ''Failed to apply text overlay.''\<rparr>)
          else s\<lparr>editedImage := Some before\<rparr>)"

section \<open>Download\<close>

text \<open>
  What a click on Download comes to: nothing (\<open>NotStarted\<close>: no edited image), an image that
  does not load, a canvas without context, or the canvas drawn, the link's \<open>href\<close> and its
  \<open>download\<close> name.
\<close>

datatype download_result =
    NotStarted
  | LoadFailed
  | ContextMissing
  | Saved canvas string string

definition handleDownload ::
  "(string \<Rightarrow> html_image option) \<Rightarrow> bool \<Rightarrow> encoder \<Rightarrow> app \<Rightarrow> download_result \<times> app" where
  "handleDownload load has_ctx toDataURL s =
     (case editedImage s of
        None \<Rightarrow> (NotStarted, s)
      | Some edited \<Rightarrow>
          if edited = [] then (NotStarted, s)
          else
            let mime = ''image/'' @ outputFormat s;
                fileExtension = outputFormat s
            in (case load edited of
                  None \<Rightarrow>
                    (LoadFailed, s\<lparr>error := Some ''Failed to process image for download.''\<rparr>)
                | Some img \<Rightarrow>
                    if \<not> has_ctx then (ContextMissing, s)
                    else
                      let w = of_nat (img_width img);
                          h = of_nat (img_height img);
                          fill = (if outputFormat s = ''jpeg''
                                  then [SetFillStyle ''#ffffff'', FillRect 0 0 w h] else []);
                          cv = \<lparr>cv_width = Fin w, cv_height = Fin h,
                                cv_ops = fill @ [DrawImage img 0 0]\<rparr>;
                          dataUrl = toDataURL cv mime (Some (95 / 100))
                      in (Saved cv dataUrl (''edited-image.'' @ fileExtension), s)))"

section \<open>User actions and requests in flight\<close>

text \<open>
  The application with the requests that are waiting for the service. An action is an
  event the user or the service causes; an action on an element that is not rendered, or
  on the disabled button, changes nothing.
\<close>

record system =
  sys_app :: app
  in_flight :: "Part list list"

datatype action =
    ChooseFile File reader_event
  | CropDone OriginalImage
  | TypePrompt string
  | ClickGenerate
  | PressEnter
  | Settle nat svc_result

definition system_init :: system where
  "system_init = \<lparr>sys_app = app_init, in_flight = []\<rparr>"

definition cropper_shown :: "app \<Rightarrow> bool" where
  "cropper_shown s = (\<not> falsy (uncroppedImage s))"

definition editor_shown :: "app \<Rightarrow> bool" where
  "editor_shown s = (falsy (uncroppedImage s) \<and> originalImage s \<noteq> None)"

definition uploader_shown :: "app \<Rightarrow> bool" where
  "uploader_shown s = (falsy (uncroppedImage s) \<and> originalImage s = None)"

text \<open>The Generate button carries \<open>disabled={isLoading || !prompt}\<close>.\<close>

definition generate_disabled :: "app \<Rightarrow> bool" where
  "generate_disabled s = (isLoading s \<or> prompt s = [])"

definition call_handleGenerate :: "system \<Rightarrow> system" where
  "call_handleGenerate st =
     (case handleGenerate_start (sys_app st) of
        (s1, None) \<Rightarrow> st\<lparr>sys_app := s1\<rparr>
      | (s1, Some req) \<Rightarrow> st\<lparr>sys_app := s1, in_flight := in_flight st @ [req]\<rparr>)"

fun step :: "system \<Rightarrow> action \<Rightarrow> system" where
  "step st (ChooseFile f ev) =
     (if uploader_shown (sys_app st)
      then st\<lparr>sys_app := handleFileChange (Some f) ev (sys_app st)\<rparr> else st)"
| "step st (CropDone i) =
     (if cropper_shown (sys_app st)
      then st\<lparr>sys_app := handleCropComplete i (sys_app st)\<rparr> else st)"
| "step st (TypePrompt t) =
     (if editor_shown (sys_app st)
      then st\<lparr>sys_app := (sys_app st)\<lparr>prompt := t\<rparr>\<rparr> else st)"
| "step st ClickGenerate =
     (if editor_shown (sys_app st) \<and> \<not> generate_disabled (sys_app st)
      then call_handleGenerate st else st)"
| "step st PressEnter =
     (if editor_shown (sys_app st) then call_handleGenerate st else st)"
| "step st (Settle i r) =
     (if i < length (in_flight st)
      then st\<lparr>sys_app := handleGenerate_settle r (sys_app st),
              in_flight := take i (in_flight st) @ drop (Suc i) (in_flight st)\<rparr>
      else st)"

definition run :: "action list \<Rightarrow> system" where
  "run acts = foldl step system_init acts"

section \<open>Sample environments\<close>

text \<open>
  Concrete browsers for the examples: an encoder that answers with the requested type
  after the prefix \<open>data:\<close>, a loader that decodes every source into an image of 200 by 100
  pixels displayed at full size, and a loader on which every source fails.
\<close>

definition sample_encoder :: encoder where
  "sample_encoder cv t q = ''data:'' @ t"

definition sample_image :: "string \<Rightarrow> html_image" where
  "sample_image src =
     \<lparr>img_src = src, img_width = 200, img_height = 100, naturalWidth = 200, naturalHeight = 100\<rparr>"

definition sample_load :: "string \<Rightarrow> html_image option" where
  "sample_load src = Some (sample_image src)"

definition failing_load :: "string \<Rightarrow> html_image option" where
  "failing_load src = None"

definition sample_url :: string where
  "sample_url = ''data:image/jpeg;base64,AAAA''"

text \<open>
  A finished drag from (10, 20) to (110, 70), over an image of 400 by 300 pixels that is
  displayed at 200 by 100.
\<close>

definition sample_cropper :: cropper where
  "sample_cropper =
     \<lparr>isCropping = False, cropStart = \<lparr>pt_x = 10, pt_y = 20\<rparr>, cropEnd = \<lparr>pt_x = 110, pt_y = 70\<rparr>\<rparr>"

definition displayed_image :: html_image where
  "displayed_image =
     \<lparr>img_src = sample_url, img_width = 200, img_height = 100,
      naturalWidth = 400, naturalHeight = 300\<rparr>"

definition sample_options :: overlay_options where
  "sample_options =
     \<lparr>opt_fontFamily = ''Arial'', opt_fontSize = 48, opt_textColor = ''#ffffff'',
      opt_textPosition = ''bottom-right''\<rparr>"

text \<open>
  A file of type JPEG; the editor with an image loaded and a prompt typed; the same with
  an edited image to download; two services, one answering with text only and one with
  an image.
\<close>

definition jpeg_file :: File where
  "jpeg_file = \<lparr>file_type = ''image/jpeg''\<rparr>"

definition loaded_app :: app where
  "loaded_app =
     app_init\<lparr>originalImage := Some \<lparr>url = sample_url, mimeType = ''image/png''\<rparr>,
              prompt := ''Add a dog''\<rparr>"

definition edited_app :: app where
  "edited_app = loaded_app\<lparr>imageBeforeText := Some sample_url, editedImage := Some sample_url\<rparr>"

definition no_image_service :: "Part list \<Rightarrow> svc_result" where
  "no_image_service req = Responded [Text ''I cannot do that.'']"

definition image_service :: "Part list \<Rightarrow> svc_result" where
  "image_service req =
     Responded [InlineData \<lparr>base64Data = Some ''BBBB'', inlineMimeType = ''image/png''\<rparr>]"

text \<open>
  The editor after a generation, with the overlay text \<open>Hi\<close> typed and the effect not yet
  run; and two sequences of actions from the start of the application: upload, crop,
  type a prompt, press Enter, and then press Enter again or click Generate.
\<close>

definition overlay_app :: app where
  "overlay_app = loaded_app\<lparr>imageBeforeText := Some sample_url, textOverlay := ''Hi''\<rparr>"

definition double_enter :: "action list" where
  "double_enter =
     [ChooseFile jpeg_file (ReaderLoad sample_url),
      CropDone \<lparr>url = sample_url, mimeType = ''image/png''\<rparr>,
      TypePrompt ''Add a dog'',
      PressEnter,
      PressEnter]"

definition enter_then_click :: "action list" where
  "enter_then_click =
     [ChooseFile jpeg_file (ReaderLoad sample_url),
      CropDone \<lparr>url = sample_url, mimeType = ''image/png''\<rparr>,
      TypePrompt ''Add a dog'',
      PressEnter,
      ClickGenerate]"

text \<open>
  The same image of 400 by 300 pixels displayed at 300 by 225; a service whose response has
  no candidates; and the sequence with the two Enter keys above, followed by the first of
  the two calls coming back with an image.
\<close>

definition shrunk_image :: html_image where
  "shrunk_image =
     \<lparr>img_src = sample_url, img_width = 300, img_height = 225,
      naturalWidth = 400, naturalHeight = 300\<rparr>"

definition unreadable_service :: "Part list \<Rightarrow> svc_result" where
  "unreadable_service req = Unreadable ''response.candidates is undefined''"

definition overlapping_run :: "action list" where
  "overlapping_run = double_enter @ [Settle 0 (image_service [])]"

section \<open>Properties of the cropper\<close>

text \<open>
  The rounding at some known values: a tenth and four thirds are rounded to 53 bits, an
  odd integer above \<open>2^53\<close> goes to its even neighbour on a tie, and a small integer is
  kept.
\<close>

lemma to_double_examples:
  "to_double (1 / 10) = Fin (3602879701896397 / 36028797018963968)"
  "to_double (4 / 3) = Fin (6004799503160661 / 4503599627370496)"
  "to_double 9007199254740993 = Fin 9007199254740992"
  "to_double 9007199254740995 = Fin 9007199254740996"
  "to_double (- 100) = Fin (- 100)"
  by code_simp+

lemma to_double_zero: "to_double 0 = Fin 0"
  by (simp add: to_double_def)

text \<open>
  The first test of \<open>getCropRect\<close> (no drag in progress and both horizontal coordinates
  zero) only returns what the test on the width returns anyway, so the function is
  decided by the width and the height alone.
\<close>

lemma getCropRect_eq:
  "getCropRect c =
     (if js_abs (js_sub (pt_x (cropStart c)) (pt_x (cropEnd c))) = Fin 0 \<or>
         js_abs (js_sub (pt_y (cropStart c)) (pt_y (cropEnd c))) = Fin 0
      then None
      else Some \<lparr>rect_x = min (pt_x (cropStart c)) (pt_x (cropEnd c)),
                 rect_y = min (pt_y (cropStart c)) (pt_y (cropEnd c)),
                 rect_width = js_abs (js_sub (pt_x (cropStart c)) (pt_x (cropEnd c))),
                 rect_height = js_abs (js_sub (pt_y (cropStart c)) (pt_y (cropEnd c)))\<rparr>)"
  by (simp add: getCropRect_def Let_def js_sub_def to_double_zero)

text \<open>The conversion to \<open>unsigned long\<close> truncates a value in the range of the type.\<close>

lemma to_unsigned_long_floor:
  "0 \<le> v \<Longrightarrow> v < 2 ^ 32 \<Longrightarrow> int (to_unsigned_long (Fin v)) = \<lfloor>v\<rfloor>"
proof -
  assume nonneg: "0 \<le> v" and small: "v < 2 ^ 32"
  have lo: "0 \<le> \<lfloor>v\<rfloor>" using nonneg by simp
  have "\<lfloor>v\<rfloor> < 2 ^ 32"
    using small by (simp add: floor_less_iff)
  with lo have "\<lfloor>v\<rfloor> mod 2 ^ 32 = \<lfloor>v\<rfloor>" by simp
  with nonneg lo show ?thesis by simp
qed

lemma crop_examples:
  "getCropRect cropper_init = None"
  "getCropRect sample_cropper =
     Some \<lparr>rect_x = 10, rect_y = 20, rect_width = Fin 100, rect_height = Fin 50\<rparr>"
  by code_simp+

text \<open>
  Claim C1, as stated, fails in the size of the new bitmap. For an image of 400 by 300
  pixels displayed at 300 by 225 and a drag from (10, 20) to (110, 70), the scaled width
  and height are the doubles 133.33333333333331 and 66.66666666666666; these are the
  source and destination sizes handed to \<open>drawImage\<close>, but the canvas they are assigned to
  holds integers and is 133 by 66.
\<close>

theorem crop_bitmap_size_counterexample:
  "handleConfirmCrop sample_encoder True (Some shrunk_image) sample_url sample_cropper =
     Cropped
       \<lparr>cv_width = Fin 133, cv_height = Fin 66,
        cv_ops =
          [DrawImageRegion shrunk_image
             (Fin (3752999689475413 / 281474976710656))
             (Fin (3752999689475413 / 140737488355328))
             (Fin (2345624805922133 / 17592186044416))
             (Fin (2345624805922133 / 35184372088832))
             (Fin 0) (Fin 0)
             (Fin (2345624805922133 / 17592186044416))
             (Fin (2345624805922133 / 35184372088832))]\<rparr>
       \<lparr>url = ''data:image/png'', mimeType = ''image/png''\<rparr> \<and>
   (133 :: rat) < 2345624805922133 / 17592186044416 \<and>
   (66 :: rat) < 2345624805922133 / 35184372088832"
  by code_simp

text \<open>
  Claim C1, amended. For all drag points \<open>cropStart\<close> and \<open>cropEnd\<close>, with the width
  \<open>|cropStart.x - cropEnd.x|\<close> and the height \<open>|cropStart.y - cropEnd.y|\<close> computed in double
  arithmetic, \<open>getCropRect\<close> returns null when the width or the height is zero and
  otherwise the rectangle with \<open>x\<close> and \<open>y\<close> the minima of the coordinates and that width
  and height. On confirm, with such a rectangle, an image element and a 2D context,
  \<open>handleConfirmCrop\<close> scales the rectangle by \<open>naturalWidth / width\<close> and
  \<open>naturalHeight / height\<close> (quotients and products of doubles), draws exactly that region
  of the image at the origin of a new canvas with the destination size \<open>sourceWidth\<close> by
  \<open>sourceHeight\<close>, and hands over the PNG encoding of the canvas. The bitmap of that canvas
  has the dimensions \<open>sourceWidth\<close> and \<open>sourceHeight\<close> converted to \<open>unsigned long\<close>: for a
  non-negative size below \<open>2^32\<close>, its integer part.
\<close>

theorem crop_rect_and_confirm:
  fixes c :: cropper and img :: html_image
  defines "sx \<equiv> pt_x (cropStart c)" and "sy \<equiv> pt_y (cropStart c)"
    and "ex \<equiv> pt_x (cropEnd c)" and "ey \<equiv> pt_y (cropEnd c)"
  defines "width \<equiv> js_abs (js_sub sx ex)" and "height \<equiv> js_abs (js_sub sy ey)"
  defines "scaleX \<equiv> js_div (of_nat (naturalWidth img)) (of_nat (img_width img))"
    and "scaleY \<equiv> js_div (of_nat (naturalHeight img)) (of_nat (img_height img))"
  defines "sourceX \<equiv> js_mul (Fin (min sx ex)) scaleX"
    and "sourceY \<equiv> js_mul (Fin (min sy ey)) scaleY"
    and "sourceWidth \<equiv> js_mul width scaleX"
    and "sourceHeight \<equiv> js_mul height scaleY"
  shows "getCropRect c =
           (if width = Fin 0 \<or> height = Fin 0 then None
            else Some \<lparr>rect_x = min sx ex, rect_y = min sy ey,
                       rect_width = width, rect_height = height\<rparr>) \<and>
         (width \<noteq> Fin 0 \<and> height \<noteq> Fin 0 \<longrightarrow>
            (\<exists>cv. handleConfirmCrop toDataURL True (Some img) imageUrl c =
                    Cropped cv \<lparr>url = toDataURL cv ''image/png'' None, mimeType = ''image/png''\<rparr> \<and>
                  cv_width cv = Fin (of_nat (to_unsigned_long sourceWidth)) \<and>
                  cv_height cv = Fin (of_nat (to_unsigned_long sourceHeight)) \<and>
                  cv_ops cv =
                    [DrawImageRegion img sourceX sourceY sourceWidth sourceHeight
                       (Fin 0) (Fin 0) sourceWidth sourceHeight])) \<and>
         (\<forall>v. sourceWidth = Fin v \<and> 0 \<le> v \<and> v < 2 ^ 32 \<longrightarrow>
              int (to_unsigned_long sourceWidth) = \<lfloor>v\<rfloor>) \<and>
         (\<forall>v. sourceHeight = Fin v \<and> 0 \<le> v \<and> v < 2 ^ 32 \<longrightarrow>
              int (to_unsigned_long sourceHeight) = \<lfloor>v\<rfloor>)"
  unfolding sx_def sy_def ex_def ey_def width_def height_def scaleX_def scaleY_def
    sourceX_def sourceY_def sourceWidth_def sourceHeight_def
  by (simp add: getCropRect_eq handleConfirmCrop_def Let_def to_unsigned_long_floor
        del: to_unsigned_long.simps)

theorem crop_rect_and_confirm_witness:
  "js_abs (js_sub (pt_x (cropStart sample_cropper)) (pt_x (cropEnd sample_cropper))) = Fin 100 \<and>
   js_abs (js_sub (pt_y (cropStart sample_cropper)) (pt_y (cropEnd sample_cropper))) = Fin 50 \<and>
   getCropRect sample_cropper =
     Some \<lparr>rect_x = 10, rect_y = 20, rect_width = Fin 100, rect_height = Fin 50\<rparr> \<and>
   (\<exists>cv. handleConfirmCrop sample_encoder True (Some displayed_image) sample_url sample_cropper =
           Cropped cv \<lparr>url = ''data:image/png'', mimeType = ''image/png''\<rparr> \<and>
         cv_width cv = Fin 200 \<and> cv_height cv = Fin 150 \<and>
         cv_ops cv =
           [DrawImageRegion displayed_image (Fin 20) (Fin 60) (Fin 200) (Fin 150)
              (Fin 0) (Fin 0) (Fin 200) (Fin 150)])"
proof -
  note inst =
    crop_rect_and_confirm
      [where c = sample_cropper and img = displayed_image and toDataURL = sample_encoder
         and imageUrl = sample_url]
  have size: "js_abs (js_sub (pt_x (cropStart sample_cropper)) (pt_x (cropEnd sample_cropper))) = Fin 100"
    "js_abs (js_sub (pt_y (cropStart sample_cropper)) (pt_y (cropEnd sample_cropper))) = Fin 50"
    by code_simp+
  have corner: "min (pt_x (cropStart sample_cropper)) (pt_x (cropEnd sample_cropper)) = 10"
    "min (pt_y (cropStart sample_cropper)) (pt_y (cropEnd sample_cropper)) = 20"
    by (simp_all add: sample_cropper_def)
  have scale: "js_div (of_nat (naturalWidth displayed_image)) (of_nat (img_width displayed_image)) = Fin 2"
    "js_div (of_nat (naturalHeight displayed_image)) (of_nat (img_height displayed_image)) = Fin 3"
    by code_simp+
  have source: "js_mul (Fin 10) (Fin 2) = Fin 20" "js_mul (Fin 20) (Fin 3) = Fin 60"
    "js_mul (Fin 100) (Fin 2) = Fin 200" "js_mul (Fin 50) (Fin 3) = Fin 150"
    by code_simp+
  have bitmap: "to_unsigned_long (Fin 200) = 200" "to_unsigned_long (Fin 150) = 150"
    by code_simp+
  show ?thesis
    using inst unfolding size corner scale source bitmap
    by (simp add: sample_encoder_def)
qed

text \<open>
  Rounding alone can cost a pixel: for an image 400 pixels wide displayed at 194 and a
  selection 97 wide the exact product is 200, the product of the doubles is
  199.99999999999997, and the bitmap is 199 wide.
\<close>

lemma confirm_rounding_example:
  "js_div 400 194 = Fin (290180388361501 / 140737488355328) \<and>
   js_mul (Fin 97) (js_div 400 194) = Fin (7036874417766399 / 35184372088832) \<and>
   (97 :: rat) * (400 / 194) = 200 \<and>
   to_unsigned_long (js_mul (Fin 97) (js_div 400 194)) = 199"
  by code_simp

text \<open>
  Claim C8. When the image reference or the crop rectangle is null, \<open>handleConfirmCrop\<close>
  hands over the uncropped URL unchanged with the MIME type \<open>image/png\<close>, whatever the type
  of the uploaded file was (the handler never sees it); a cropped selection is handed over
  as the PNG encoding of the canvas; so every image that leaves the cropper is labelled
  \<open>image/png\<close>.
\<close>

theorem cropper_output_is_png:
  "(imgRef = None \<or> getCropRect c = None \<longrightarrow>
      handleConfirmCrop toDataURL has_ctx imgRef imageUrl c =
        UseFullImage \<lparr>url = imageUrl, mimeType = ''image/png''\<rparr>) \<and>
   (\<forall>i. crop_output (handleConfirmCrop toDataURL has_ctx imgRef imageUrl c) = Some i \<longrightarrow>
      mimeType i = ''image/png'') \<and>
   (\<forall>cv i. handleConfirmCrop toDataURL has_ctx imgRef imageUrl c = Cropped cv i \<longrightarrow>
      url i = toDataURL cv ''image/png'' None)"
  by (auto simp: handleConfirmCrop_def Let_def split: option.splits if_splits)

theorem cropper_output_is_png_witness:
  "getCropRect cropper_init = None \<and>
   sample_url = ''data:image/jpeg;base64,AAAA'' \<and>
   handleConfirmCrop sample_encoder True (Some displayed_image) sample_url cropper_init =
     UseFullImage \<lparr>url = sample_url, mimeType = ''image/png''\<rparr> \<and>
   crop_output (handleConfirmCrop sample_encoder True (Some displayed_image) sample_url sample_cropper) =
     Some \<lparr>url = ''data:image/png'', mimeType = ''image/png''\<rparr>"
  using cropper_output_is_png [of "Some displayed_image" cropper_init sample_encoder True sample_url]
    cropper_output_is_png [of "Some displayed_image" sample_cropper sample_encoder True sample_url]
  by (simp add: crop_examples handleConfirmCrop_def sample_encoder_def sample_url_def Let_def)

section \<open>Properties of the text overlay\<close>

lemma textPlacement_cases:
  "textPlacement ''top-left'' w h = (''left'', ''top'', min w h * (5 / 100), min w h * (5 / 100))"
  "textPlacement ''top-center'' w h = (''center'', ''top'', w / 2, min w h * (5 / 100))"
  "textPlacement ''top-right'' w h = (''right'', ''top'', w - min w h * (5 / 100), min w h * (5 / 100))"
  "textPlacement ''middle-left'' w h = (''left'', ''middle'', min w h * (5 / 100), h / 2)"
  "textPlacement ''center'' w h = (''center'', ''middle'', w / 2, h / 2)"
  "textPlacement ''middle-right'' w h = (''right'', ''middle'', w - min w h * (5 / 100), h / 2)"
  "textPlacement ''bottom-left'' w h = (''left'', ''bottom'', min w h * (5 / 100), h - min w h * (5 / 100))"
  "textPlacement ''bottom-center'' w h = (''center'', ''bottom'', w / 2, h - min w h * (5 / 100))"
  "textPlacement ''bottom-right'' w h = (''right'', ''bottom'', w - min w h * (5 / 100), h - min w h * (5 / 100))"
  by (simp_all add: textPlacement_def Let_def)

lemma textPlacement_default:
  "p \<notin> {''top-left'', ''top-center'', ''top-right'', ''middle-left'', ''center'',
         ''middle-right'', ''bottom-left'', ''bottom-center'', ''bottom-right''}
   \<Longrightarrow> textPlacement p w h = (''center'', ''middle'', w / 2, h / 2)"
  by (simp add: textPlacement_def Let_def)

text \<open>
  Claim C2. For an input that decodes to an image of width \<open>w\<close> and height \<open>h\<close>, and with a
  2D context, \<open>applyTextOverlay\<close> resolves with the PNG encoding of a new canvas of that
  size on which the image is drawn at the origin and then the text is filled at the
  anchor: with \<open>padding = 0.05 * min w h\<close>, the left positions have \<open>textAlign\<close> left and
  \<open>x = padding\<close>, the right positions right and \<open>x = w - padding\<close>, the horizontally centred
  ones center and \<open>x = w / 2\<close>; the top positions have \<open>textBaseline\<close> top and \<open>y = padding\<close>,
  the bottom positions bottom and \<open>y = h - padding\<close>, the vertically centred ones middle and
  \<open>y = h / 2\<close>; any other position string is treated as \<open>center\<close>. The input is a string
  that the function only reads: the drawing is made on the function's own canvas.
\<close>

theorem overlay_anchor_placement:
  fixes img :: html_image and options :: overlay_options and caption :: string
  defines "w \<equiv> of_nat (img_width img)" and "h \<equiv> of_nat (img_height img)"
  defines "padding \<equiv> min w h * (5 / 100)"
  defines "p \<equiv> opt_textPosition options"
  defines "cv \<equiv> overlayCanvas img caption options"
  assumes loaded: "load base64Image = Some img"
  shows "applyTextOverlay load True toDataURL base64Image caption options =
           Inr (toDataURL cv ''image/png'' None) \<and>
         cv_width cv = Fin w \<and> cv_height cv = Fin h \<and>
         (\<exists>align baseline x y.
            cv_ops cv =
              [DrawImage img 0 0,
               SetFont (opt_fontSize options) (opt_fontFamily options),
               SetFillStyle (opt_textColor options),
               SetShadowColor ''rgba(0, 0, 0, 0.7)'',
               SetShadowBlur 5, SetShadowOffsetX 2, SetShadowOffsetY 2,
               SetTextAlign align, SetTextBaseline baseline,
               FillText caption x y] \<and>
            (p \<in> {''top-left'', ''middle-left'', ''bottom-left''} \<longrightarrow> align = ''left'' \<and> x = padding) \<and>
            (p \<in> {''top-right'', ''middle-right'', ''bottom-right''} \<longrightarrow>
               align = ''right'' \<and> x = w - padding) \<and>
            (p \<in> {''top-center'', ''center'', ''bottom-center''} \<longrightarrow> align = ''center'' \<and> x = w / 2) \<and>
            (p \<in> {''top-left'', ''top-center'', ''top-right''} \<longrightarrow> baseline = ''top'' \<and> y = padding) \<and>
            (p \<in> {''bottom-left'', ''bottom-center'', ''bottom-right''} \<longrightarrow>
               baseline = ''bottom'' \<and> y = h - padding) \<and>
            (p \<in> {''middle-left'', ''center'', ''middle-right''} \<longrightarrow> baseline = ''middle'' \<and> y = h / 2) \<and>
            (p \<notin> {''top-left'', ''top-center'', ''top-right'', ''middle-left'', ''center'',
                   ''middle-right'', ''bottom-left'', ''bottom-center'', ''bottom-right''} \<longrightarrow>
               align = ''center'' \<and> baseline = ''middle'' \<and> x = w / 2 \<and> y = h / 2))"
proof -
  obtain align baseline x y where tp: "textPlacement p w h = (align, baseline, x, y)"
    by (metis prod_cases4)
  have ops: "cv_ops cv =
      [DrawImage img 0 0,
       SetFont (opt_fontSize options) (opt_fontFamily options),
       SetFillStyle (opt_textColor options),
       SetShadowColor ''rgba(0, 0, 0, 0.7)'',
       SetShadowBlur 5, SetShadowOffsetX 2, SetShadowOffsetY 2,
       SetTextAlign align, SetTextBaseline baseline,
       FillText caption x y]"
    using tp by (simp add: cv_def overlayCanvas_def Let_def w_def h_def p_def)
  have dims: "cv_width cv = Fin w \<and> cv_height cv = Fin h"
    by (simp add: cv_def overlayCanvas_def Let_def w_def h_def split: prod.splits)
  have res: "applyTextOverlay load True toDataURL base64Image caption options =
           Inr (toDataURL cv ''image/png'' None)"
    using loaded by (simp add: applyTextOverlay_def cv_def)
  have left: "p \<in> {''top-left'', ''middle-left'', ''bottom-left''} \<longrightarrow> align = ''left'' \<and> x = padding"
    using tp by (auto simp: textPlacement_cases padding_def)
  have right: "p \<in> {''top-right'', ''middle-right'', ''bottom-right''} \<longrightarrow>
               align = ''right'' \<and> x = w - padding"
    using tp by (auto simp: textPlacement_cases padding_def)
  have hcenter: "p \<in> {''top-center'', ''center'', ''bottom-center''} \<longrightarrow> align = ''center'' \<and> x = w / 2"
    using tp by (auto simp: textPlacement_cases padding_def)
  have top: "p \<in> {''top-left'', ''top-center'', ''top-right''} \<longrightarrow> baseline = ''top'' \<and> y = padding"
    using tp by (auto simp: textPlacement_cases padding_def)
  have bottom: "p \<in> {''bottom-left'', ''bottom-center'', ''bottom-right''} \<longrightarrow>
               baseline = ''bottom'' \<and> y = h - padding"
    using tp by (auto simp: textPlacement_cases padding_def)
  have middle: "p \<in> {''middle-left'', ''center'', ''middle-right''} \<longrightarrow> baseline = ''middle'' \<and> y = h / 2"
    using tp by (auto simp: textPlacement_cases padding_def)
  have other: "p \<notin> {''top-left'', ''top-center'', ''top-right'', ''middle-left'', ''center'',
                   ''middle-right'', ''bottom-left'', ''bottom-center'', ''bottom-right''} \<longrightarrow>
               align = ''center'' \<and> baseline = ''middle'' \<and> x = w / 2 \<and> y = h / 2"
    using tp textPlacement_default [of p w h] by auto
  have "\<exists>align baseline x y.
            cv_ops cv =
              [DrawImage img 0 0,
               SetFont (opt_fontSize options) (opt_fontFamily options),
               SetFillStyle (opt_textColor options),
               SetShadowColor ''rgba(0, 0, 0, 0.7)'',
               SetShadowBlur 5, SetShadowOffsetX 2, SetShadowOffsetY 2,
               SetTextAlign align, SetTextBaseline baseline,
               FillText caption x y] \<and>
            (p \<in> {''top-left'', ''middle-left'', ''bottom-left''} \<longrightarrow> align = ''left'' \<and> x = padding) \<and>
            (p \<in> {''top-right'', ''middle-right'', ''bottom-right''} \<longrightarrow>
               align = ''right'' \<and> x = w - padding) \<and>
            (p \<in> {''top-center'', ''center'', ''bottom-center''} \<longrightarrow> align = ''center'' \<and> x = w / 2) \<and>
            (p \<in> {''top-left'', ''top-center'', ''top-right''} \<longrightarrow> baseline = ''top'' \<and> y = padding) \<and>
            (p \<in> {''bottom-left'', ''bottom-center'', ''bottom-right''} \<longrightarrow>
               baseline = ''bottom'' \<and> y = h - padding) \<and>
            (p \<in> {''middle-left'', ''center'', ''middle-right''} \<longrightarrow> baseline = ''middle'' \<and> y = h / 2) \<and>
            (p \<notin> {''top-left'', ''top-center'', ''top-right'', ''middle-left'', ''center'',
                   ''middle-right'', ''bottom-left'', ''bottom-center'', ''bottom-right''} \<longrightarrow>
               align = ''center'' \<and> baseline = ''middle'' \<and> x = w / 2 \<and> y = h / 2)"
    by (rule exI [of _ align], rule exI [of _ baseline], rule exI [of _ x], rule exI [of _ y])
       (intro conjI ops left right hcenter top bottom middle other)
  then show ?thesis
    by (intro conjI res conjunct1 [OF dims] conjunct2 [OF dims])
qed


theorem overlay_anchor_placement_witness:
  "sample_load sample_url = Some (sample_image sample_url) \<and>
   opt_textPosition sample_options \<in> {''top-right'', ''middle-right'', ''bottom-right''} \<and>
   opt_textPosition sample_options \<in> {''bottom-left'', ''bottom-center'', ''bottom-right''} \<and>
   applyTextOverlay sample_load True sample_encoder sample_url ''Hi'' sample_options =
     Inr ''data:image/png'' \<and>
   cv_ops (overlayCanvas (sample_image sample_url) ''Hi'' sample_options) =
     [DrawImage (sample_image sample_url) 0 0, SetFont 48 ''Arial'', SetFillStyle ''#ffffff'',
      SetShadowColor ''rgba(0, 0, 0, 0.7)'', SetShadowBlur 5, SetShadowOffsetX 2,
      SetShadowOffsetY 2, SetTextAlign ''right'', SetTextBaseline ''bottom'',
      FillText ''Hi'' 195 95]"
proof -
  have loaded: "sample_load sample_url = Some (sample_image sample_url)"
    by (simp add: sample_load_def)
  from overlay_anchor_placement
         [where load = sample_load and base64Image = sample_url
            and img = "sample_image sample_url" and toDataURL = sample_encoder
            and caption = "''Hi''" and options = sample_options, OF loaded]
  show ?thesis
    by (simp add: sample_load_def sample_image_def sample_options_def sample_encoder_def)
qed

section \<open>Properties of ingestion and of the background image\<close>

text \<open>
  Claim C7. \<open>fileToDataUrl\<close> resolves, on the reader's load event, with the reader's result
  (the data URI of the file) as \<open>url\<close> and the file's own type as \<open>mimeType\<close>, and it rejects
  exactly when the reader reports an error, with that error.
\<close>

theorem fileToDataUrl_outcome:
  "(fileToDataUrl f (ReaderLoad r) = Resolved \<lparr>url = r, mimeType = file_type f\<rparr>) \<and>
   ((\<exists>e. fileToDataUrl f ev = Rejected e) \<longleftrightarrow> (\<exists>e. ev = ReaderError e)) \<and>
   (fileToDataUrl f (ReaderError e) = Rejected e)"
  by (cases ev) (simp_all add: fileToDataUrl_def)

text \<open>
  Claim C9. A background file that is read successfully sets the background image and
  overwrites the prompt with the fixed sentence. \<open>removeBackgroundImage\<close> clears the
  background image, empties the prompt only if it equals that sentence, empties the
  background file input, and changes nothing else of the state: the original image, the
  edited image and the overlay settings stay as they are.
\<close>

theorem background_prompt_frame:
  "background_prompt = ''Replace the background of the first image with the second image.'' \<and>
   handleBackgroundFileChange (Some f) (ReaderLoad r) s =
     s\<lparr>backgroundImage := Some \<lparr>url = r, mimeType = file_type f\<rparr>, prompt := background_prompt\<rparr> \<and>
   removeBackgroundImage s =
     s\<lparr>backgroundImage := None,
       prompt := (if prompt s = background_prompt then [] else prompt s),
       backgroundInput := (case backgroundInput s of None \<Rightarrow> None | Some v \<Rightarrow> Some [])\<rparr> \<and>
   originalImage (removeBackgroundImage s) = originalImage s \<and>
   editedImage (removeBackgroundImage s) = editedImage s \<and>
   imageBeforeText (removeBackgroundImage s) = imageBeforeText s \<and>
   textOverlay (removeBackgroundImage s) = textOverlay s \<and>
   fontFamily (removeBackgroundImage s) = fontFamily s \<and>
   fontSize (removeBackgroundImage s) = fontSize s \<and>
   textColor (removeBackgroundImage s) = textColor s \<and>
   textPosition (removeBackgroundImage s) = textPosition s"
  by (simp add: background_prompt_def handleBackgroundFileChange_def fileToDataUrl_def
        removeBackgroundImage_def Let_def split: option.splits)

section \<open>Properties of the request\<close>

text \<open>
  Claim C3. The parts of the request are the primary image first, then the background
  image exactly when one is supplied, then one text part; that text is the prompt followed
  by two newlines and an instruction, which asks for the given aspect ratio when
  \<open>aspectRatio\<close> is \<open>16:9\<close> or \<open>4:3\<close> and otherwise asks to preserve the aspect ratio of the
  first image; and \<open>editImageWithGemini\<close> calls the service on exactly this list.
\<close>

theorem request_parts_order:
  fixes originalImage :: ImageData and userPrompt :: string
  defines "generate_instr \<equiv> (\<lambda>ratio. newlines @ ''Please generate the output image with a '' @ ratio @ '' aspect ratio.'')"
  defines "preserve_instr \<equiv> newlines @ ''Please preserve the aspect ratio of the first image.''"
  defines "instruction \<equiv> (\<lambda>ratio. if ratio = ''16:9'' \<or> ratio = ''4:3'' then generate_instr ratio else preserve_instr)"
  shows "request_parts originalImage userPrompt None ratio =
           [InlineData originalImage, Text (userPrompt @ instruction ratio)] \<and>
         request_parts originalImage userPrompt (Some bg) ratio =
           [InlineData originalImage, InlineData bg, Text (userPrompt @ instruction ratio)] \<and>
         editImageWithGemini generateContent originalImage userPrompt background ratio =
           editImageWithGemini_settle
             (generateContent
                (InlineData originalImage
                   # (case background of None \<Rightarrow> [] | Some b \<Rightarrow> [InlineData b])
                   @ [Text (userPrompt @ instruction ratio)])) \<and>
         instruction ''16:9'' = newlines @ ''Please generate the output image with a 16:9 aspect ratio.'' \<and>
         instruction ''4:3'' = newlines @ ''Please generate the output image with a 4:3 aspect ratio.'' \<and>
         instruction ''original'' = preserve_instr \<and>
         newlines = [CHR 0x0A, CHR 0x0A]"
  unfolding instruction_def generate_instr_def preserve_instr_def
  by (simp add: request_parts_def editImageWithGemini_def newlines_def split: option.splits)

theorem request_parts_order_witness:
  "request_parts (payload_of \<lparr>url = sample_url, mimeType = ''image/png''\<rparr>) ''Add a dog''
     (Some \<lparr>base64Data = Some ''CCCC'', inlineMimeType = ''image/webp''\<rparr>) ''16:9'' =
     [InlineData \<lparr>base64Data = Some ''AAAA'', inlineMimeType = ''image/png''\<rparr>,
      InlineData \<lparr>base64Data = Some ''CCCC'', inlineMimeType = ''image/webp''\<rparr>,
      Text (''Add a dog'' @ [CHR 0x0A, CHR 0x0A]
              @ ''Please generate the output image with a 16:9 aspect ratio.'')] \<and>
   request_parts (payload_of \<lparr>url = sample_url, mimeType = ''image/png''\<rparr>) ''Add a dog''
     None ''1:1'' =
     [InlineData \<lparr>base64Data = Some ''AAAA'', inlineMimeType = ''image/png''\<rparr>,
      Text (''Add a dog'' @ [CHR 0x0A, CHR 0x0A]
              @ ''Please preserve the aspect ratio of the first image.'')]"
proof -
  note with_background =
    request_parts_order
      [where originalImage = "payload_of \<lparr>url = sample_url, mimeType = ''image/png''\<rparr>"
         and userPrompt = "''Add a dog''"
         and bg = "\<lparr>base64Data = Some ''CCCC'', inlineMimeType = ''image/webp''\<rparr>"
         and ratio = "''16:9''", THEN conjunct2, THEN conjunct1]
  note without_background =
    request_parts_order
      [where originalImage = "payload_of \<lparr>url = sample_url, mimeType = ''image/png''\<rparr>"
         and userPrompt = "''Add a dog''" and ratio = "''1:1''", THEN conjunct1]
  show ?thesis
    unfolding with_background without_background
    by (simp add: payload_of_def sample_url_def newlines_def)
qed

section \<open>Properties of a generation\<close>

lemma handleGenerate_start_refuse:
  "prompt s = [] \<or> originalImage s = None \<Longrightarrow>
   handleGenerate_start s =
     (s\<lparr>error := Some ''Please enter a prompt and upload an image first.''\<rparr>, None)"
  by (cases "prompt s = []"; cases "originalImage s") (simp_all add: handleGenerate_start_def)

lemma handleGenerate_start_send:
  "prompt s \<noteq> [] \<Longrightarrow> originalImage s = Some oi \<Longrightarrow>
   handleGenerate_start s =
     (s\<lparr>isLoading := True, error := None, editedImage := None, imageBeforeText := None\<rparr>,
      Some (request_parts (payload_of oi) (prompt s)
              (map_option payload_of (backgroundImage s)) (aspectRatio s)))"
  by (simp add: handleGenerate_start_def)

text \<open>
  The loop over the response finds nothing exactly when no inline part has a MIME type
  that starts with \<open>image/\<close>, and otherwise it finds the first such part.
\<close>

lemma first_image_None_iff:
  "first_image ps = None \<longleftrightarrow>
     (\<forall>d. InlineData d \<in> set ps \<longrightarrow> take 6 (inlineMimeType d) \<noteq> ''image/'')"
  by (induction ps rule: first_image.induct) auto

lemma first_image_first:
  "(\<forall>d. InlineData d \<in> set pre \<longrightarrow> take 6 (inlineMimeType d) \<noteq> ''image/'') \<Longrightarrow>
   take 6 (inlineMimeType g) = ''image/'' \<Longrightarrow>
   first_image (pre @ InlineData g # post) = Some g"
  by (induction pre rule: first_image.induct) auto

lemma settle_keeps_editedImage:
  "editedImage (handleGenerate_settle r t) = editedImage t"
  by (simp add: handleGenerate_settle_def split: sum.splits)

text \<open>
  Claim C6, as stated, fails in two places. A response without candidates contains no
  image part, yet the rejection carries the engine's \<open>TypeError\<close> message and not
  \<open>No image was generated\<close>, because the \<open>catch\<close> block forwards the message of whatever was
  thrown. And after a second Enter while the first call is waiting, the first call coming
  back clears the loading flag while the second request is still in flight.
\<close>

theorem generation_counterexample:
  "handleGenerate unreadable_service loaded_app =
     loaded_app\<lparr>error := Some ''Generation failed: response.candidates is undefined''\<rparr> \<and>
   length (in_flight (run overlapping_run)) = 1 \<and>
   \<not> isLoading (sys_app (run overlapping_run))"
  by (simp add: handleGenerate_def handleGenerate_start_def handleGenerate_settle_def
        editImageWithGemini_settle_def unreadable_service_def image_service_def
        loaded_app_def app_init_def run_def overlapping_run_def double_enter_def
        system_init_def jpeg_file_def sample_url_def uploader_shown_def cropper_shown_def
        editor_shown_def call_handleGenerate_def handleFileChange_def fileToDataUrl_def
        resetEditorState_def handleCropComplete_def)

text \<open>
  Claim C6, amended. \<open>handleGenerate\<close> with an empty prompt or without an original image
  sends nothing and sets the error asking for a prompt and an image. Otherwise, at the
  moment it sends the request, it sets the loading flag and clears the error, the edited
  image and the pre-text image. When the call comes back, in whatever state the
  application then is: an \<open>Error\<close> thrown with a message, an unreadable response (with the
  message of its \<open>TypeError\<close>), another value thrown (with the fixed message
  \<open>An unknown error occurred during image generation.\<close>) and a response none of whose
  inline parts is an image (with the message that starts \<open>No image was generated\<close>) all set
  the error to \<open>Generation failed: \<close> followed by the message and clear the loading flag; a
  response with an inline image part sets the pre-text image to the data URI of the first
  such part and clears the loading flag; and in no case is the edited image touched, so that
  it is still unset at the end of a run during which nothing else happened.
\<close>

theorem handleGenerate_outcomes:
  fixes s t :: app
  defines "refused \<equiv> s\<lparr>error := Some ''Please enter a prompt and upload an image first.''\<rparr>"
  defines "waiting \<equiv> s\<lparr>isLoading := True, error := None, editedImage := None, imageBeforeText := None\<rparr>"
  defines "request \<equiv> (\<lambda>oi. request_parts (payload_of oi) (prompt s)
                                (map_option payload_of (backgroundImage s)) (aspectRatio s))"
  defines "failed \<equiv> (\<lambda>m. t\<lparr>error := Some (''Generation failed: '' @ m), isLoading := False\<rparr>)"
  shows "(prompt s = [] \<or> originalImage s = None \<longrightarrow>
            handleGenerate_start s = (refused, None) \<and> handleGenerate generateContent s = refused) \<and>
         (prompt s \<noteq> [] \<and> originalImage s = Some oi \<longrightarrow>
            handleGenerate_start s = (waiting, Some (request oi)) \<and>
            handleGenerate generateContent s =
              handleGenerate_settle (generateContent (request oi)) waiting) \<and>
         handleGenerate_settle (Threw m) t = failed m \<and>
         handleGenerate_settle (Unreadable m) t = failed m \<and>
         handleGenerate_settle ThrewOther t =
           failed ''An unknown error occurred during image generation.'' \<and>
         ((\<forall>d. InlineData d \<in> set ps \<longrightarrow> take 6 (inlineMimeType d) \<noteq> ''image/'') \<longrightarrow>
            handleGenerate_settle (Responded ps) t =
              failed ''No image was generated. The model may not have been able to fulfill the request. Please try a different prompt.'') \<and>
         ((\<forall>d. InlineData d \<in> set pre \<longrightarrow> take 6 (inlineMimeType d) \<noteq> ''image/'') \<and>
          take 6 (inlineMimeType g) = ''image/'' \<longrightarrow>
            handleGenerate_settle (Responded (pre @ InlineData g # post)) t =
              t\<lparr>imageBeforeText :=
                   Some (''data:'' @ inlineMimeType g @ '';base64,'' @ template_str (base64Data g)),
                 isLoading := False\<rparr>) \<and>
         editedImage (handleGenerate_settle r t) = editedImage t \<and>
         (prompt s \<noteq> [] \<and> originalImage s = Some oi \<longrightarrow>
            editedImage (handleGenerate generateContent s) = None)"
proof -
  have none: "(\<forall>d. InlineData d \<in> set ps \<longrightarrow> take 6 (inlineMimeType d) \<noteq> ''image/'') \<longrightarrow>
            handleGenerate_settle (Responded ps) t =
              failed ''No image was generated. The model may not have been able to fulfill the request. Please try a different prompt.''"
  proof
    assume "\<forall>d. InlineData d \<in> set ps \<longrightarrow> take 6 (inlineMimeType d) \<noteq> ''image/''"
    then have "first_image ps = None"
      by (simp add: first_image_None_iff)
    then show "handleGenerate_settle (Responded ps) t =
              failed ''No image was generated. The model may not have been able to fulfill the request. Please try a different prompt.''"
      by (simp add: failed_def handleGenerate_settle_def editImageWithGemini_settle_def)
  qed
  have some: "(\<forall>d. InlineData d \<in> set pre \<longrightarrow> take 6 (inlineMimeType d) \<noteq> ''image/'') \<and>
          take 6 (inlineMimeType g) = ''image/'' \<longrightarrow>
            handleGenerate_settle (Responded (pre @ InlineData g # post)) t =
              t\<lparr>imageBeforeText :=
                   Some (''data:'' @ inlineMimeType g @ '';base64,'' @ template_str (base64Data g)),
                 isLoading := False\<rparr>"
  proof
    assume "(\<forall>d. InlineData d \<in> set pre \<longrightarrow> take 6 (inlineMimeType d) \<noteq> ''image/'') \<and>
          take 6 (inlineMimeType g) = ''image/''"
    then have "first_image (pre @ InlineData g # post) = Some g"
      by (simp add: first_image_first)
    then show "handleGenerate_settle (Responded (pre @ InlineData g # post)) t =
              t\<lparr>imageBeforeText :=
                   Some (''data:'' @ inlineMimeType g @ '';base64,'' @ template_str (base64Data g)),
                 isLoading := False\<rparr>"
      by (simp add: handleGenerate_settle_def editImageWithGemini_settle_def)
  qed
  have thrown: "handleGenerate_settle (Threw m) t = failed m"
    "handleGenerate_settle (Unreadable m) t = failed m"
    "handleGenerate_settle ThrewOther t =
       failed ''An unknown error occurred during image generation.''"
    by (simp_all add: failed_def handleGenerate_settle_def editImageWithGemini_settle_def)
  have refuse: "prompt s = [] \<or> originalImage s = None \<longrightarrow>
            handleGenerate_start s = (refused, None) \<and> handleGenerate generateContent s = refused"
    by (auto simp: refused_def handleGenerate_def handleGenerate_start_refuse)
  have send: "prompt s \<noteq> [] \<and> originalImage s = Some oi \<longrightarrow>
            handleGenerate_start s = (waiting, Some (request oi)) \<and>
            handleGenerate generateContent s =
              handleGenerate_settle (generateContent (request oi)) waiting"
    by (auto simp: waiting_def request_def handleGenerate_def handleGenerate_start_send)
  have unset: "prompt s \<noteq> [] \<and> originalImage s = Some oi \<longrightarrow>
            editedImage (handleGenerate generateContent s) = None"
    using send by (auto simp: settle_keeps_editedImage waiting_def)
  show ?thesis
    by (intro conjI refuse send thrown none some settle_keeps_editedImage unset)
qed

theorem handleGenerate_outcomes_witness:
  "prompt app_init = [] \<and>
   handleGenerate image_service app_init =
     app_init\<lparr>error := Some ''Please enter a prompt and upload an image first.''\<rparr> \<and>
   prompt loaded_app \<noteq> [] \<and>
   originalImage loaded_app = Some \<lparr>url = sample_url, mimeType = ''image/png''\<rparr> \<and>
   first_image [Text ''I cannot do that.''] = None \<and>
   handleGenerate no_image_service loaded_app =
     loaded_app\<lparr>error := Some ''Generation failed: No image was generated. The model may not have been able to fulfill the request. Please try a different prompt.''\<rparr> \<and>
   first_image [InlineData \<lparr>base64Data = Some ''BBBB'', inlineMimeType = ''image/png''\<rparr>] =
     Some \<lparr>base64Data = Some ''BBBB'', inlineMimeType = ''image/png''\<rparr> \<and>
   handleGenerate image_service loaded_app =
     loaded_app\<lparr>imageBeforeText := Some ''data:image/png;base64,BBBB''\<rparr> \<and>
   handleGenerate unreadable_service loaded_app =
     loaded_app\<lparr>error := Some ''Generation failed: response.candidates is undefined''\<rparr> \<and>
   editedImage (handleGenerate unreadable_service loaded_app) = None"
proof -
  note refuse =
    handleGenerate_outcomes
      [where s = app_init and generateContent = image_service, THEN conjunct1]
  note outcomes = handleGenerate_outcomes
      [where s = loaded_app and oi = "\<lparr>url = sample_url, mimeType = ''image/png''\<rparr>"]
  note no_image =
    outcomes [where generateContent = no_image_service and ps = "[Text ''I cannot do that.'']"]
  note image =
    outcomes
      [where generateContent = image_service and pre = "[]" and post = "[]"
         and g = "\<lparr>base64Data = Some ''BBBB'', inlineMimeType = ''image/png''\<rparr>"]
  note unreadable = outcomes [where generateContent = unreadable_service]
  have state: "prompt app_init = []" "prompt loaded_app \<noteq> []"
    "originalImage loaded_app = Some \<lparr>url = sample_url, mimeType = ''image/png''\<rparr>"
    by (simp_all add: app_init_def loaded_app_def)
  have a: "handleGenerate image_service app_init =
     app_init\<lparr>error := Some ''Please enter a prompt and upload an image first.''\<rparr>"
    using refuse state by simp
  have b: "handleGenerate no_image_service loaded_app =
     loaded_app\<lparr>error := Some ''Generation failed: No image was generated. The model may not have been able to fulfill the request. Please try a different prompt.''\<rparr>"
    using no_image [where t = "loaded_app\<lparr>isLoading := True, error := None, editedImage := None,
                                        imageBeforeText := None\<rparr>"] state
    by (simp add: no_image_service_def loaded_app_def app_init_def)
  have c: "handleGenerate image_service loaded_app =
     loaded_app\<lparr>imageBeforeText := Some ''data:image/png;base64,BBBB''\<rparr>"
    using image [where t = "loaded_app\<lparr>isLoading := True, error := None, editedImage := None,
                                      imageBeforeText := None\<rparr>"] state
    by (simp add: image_service_def loaded_app_def app_init_def)
  have d: "handleGenerate unreadable_service loaded_app =
     loaded_app\<lparr>error := Some ''Generation failed: response.candidates is undefined''\<rparr>"
    using unreadable [where t = "loaded_app\<lparr>isLoading := True, error := None, editedImage := None,
                                          imageBeforeText := None\<rparr>"
                        and m = "''response.candidates is undefined''"] state
    by (simp add: unreadable_service_def loaded_app_def app_init_def)
  have e: "editedImage (handleGenerate unreadable_service loaded_app) = None"
    using unreadable state by simp
  show ?thesis
    using state a b c d e by simp
qed

section \<open>Properties of the download\<close>

text \<open>
  Claim C5. With an edited image that loads and a 2D context, \<open>handleDownload\<close> draws the
  image on a canvas of its size, encodes the canvas as \<open>image/\<close> followed by the selected
  format at quality 0.95, and saves the result under \<open>edited-image.\<close> followed by the
  format. The canvas is first filled with white (\<open>#ffffff\<close>) over its whole area exactly
  when the format is \<open>jpeg\<close>; for every other format, \<open>png\<close> and \<open>webp\<close> among them, the image
  is the only thing drawn.
\<close>

theorem download_reencoding:
  fixes s :: app and img :: html_image
  defines "w \<equiv> of_nat (img_width img)" and "h \<equiv> of_nat (img_height img)"
  defines "fmt \<equiv> outputFormat s"
  assumes edited: "editedImage s = Some edited" "edited \<noteq> []"
    and loaded: "load edited = Some img"
  shows "\<exists>cv. handleDownload load True toDataURL s =
                (Saved cv (toDataURL cv (''image/'' @ fmt) (Some (95 / 100))) (''edited-image.'' @ fmt), s) \<and>
              cv_width cv = Fin w \<and> cv_height cv = Fin h \<and>
              (fmt = ''jpeg'' \<longrightarrow>
                 cv_ops cv = [SetFillStyle ''#ffffff'', FillRect 0 0 w h, DrawImage img 0 0]) \<and>
              (fmt \<noteq> ''jpeg'' \<longrightarrow> cv_ops cv = [DrawImage img 0 0])"
  using edited loaded unfolding w_def h_def fmt_def
  by (simp add: handleDownload_def Let_def)

theorem download_reencoding_witness:
  "editedImage edited_app = Some sample_url \<and> sample_url \<noteq> [] \<and>
   sample_load sample_url = Some (sample_image sample_url) \<and>
   handleDownload sample_load True sample_encoder (edited_app\<lparr>outputFormat := ''jpeg''\<rparr>) =
     (Saved \<lparr>cv_width = Fin 200, cv_height = Fin 100,
             cv_ops = [SetFillStyle ''#ffffff'', FillRect 0 0 200 100,
                       DrawImage (sample_image sample_url) 0 0]\<rparr>
        ''data:image/jpeg'' ''edited-image.jpeg'',
      edited_app\<lparr>outputFormat := ''jpeg''\<rparr>) \<and>
   handleDownload sample_load True sample_encoder (edited_app\<lparr>outputFormat := ''webp''\<rparr>) =
     (Saved \<lparr>cv_width = Fin 200, cv_height = Fin 100,
             cv_ops = [DrawImage (sample_image sample_url) 0 0]\<rparr>
        ''data:image/webp'' ''edited-image.webp'',
      edited_app\<lparr>outputFormat := ''webp''\<rparr>)"
  using download_reencoding
          [where s = "edited_app\<lparr>outputFormat := ''jpeg''\<rparr>" and edited = sample_url
             and load = sample_load and img = "sample_image sample_url"
             and toDataURL = sample_encoder]
    download_reencoding
          [where s = "edited_app\<lparr>outputFormat := ''webp''\<rparr>" and edited = sample_url
             and load = sample_load and img = "sample_image sample_url"
             and toDataURL = sample_encoder]
  by (simp add: edited_app_def loaded_app_def app_init_def sample_load_def sample_image_def
        sample_encoder_def sample_url_def handleDownload_def Let_def)

section \<open>Properties of the reactive text overlay\<close>

text \<open>A string trims to the empty string exactly when it consists of white space only.\<close>

lemma js_trim_empty_iff: "js_trim t = [] \<longleftrightarrow> (\<forall>c \<in> set t. is_space c)"
proof -
  have "js_trim t = [] \<longleftrightarrow> (\<forall>c \<in> set (dropWhile is_space t). is_space c)"
    by (simp add: js_trim_def)
  also have "\<dots> \<longleftrightarrow> (\<forall>c \<in> set t. is_space c)"
  proof
    assume a: "\<forall>c \<in> set (dropWhile is_space t). is_space c"
    have "set t = set (takeWhile is_space t) \<union> set (dropWhile is_space t)"
      by (metis set_append takeWhile_dropWhile_id)
    with a show "\<forall>c \<in> set t. is_space c"
      by (auto dest: set_takeWhileD)
  next
    assume "\<forall>c \<in> set t. is_space c"
    then show "\<forall>c \<in> set (dropWhile is_space t). is_space c"
      by (auto dest: set_dropWhileD)
  qed
  finally show ?thesis .
qed

text \<open>
  Claim C10, as stated, fails where the overlay cannot be rendered. Here a pre-text image
  exists and the overlay text is not blank, but the image does not load:
  \<open>applyTextOverlay\<close> rejects, the effect catches the rejection, and the edited image stays
  null instead of being an overlay rendering.
\<close>

theorem overlay_failure_counterexample:
  "imageBeforeText overlay_app = Some sample_url \<and>
   sample_url \<noteq> [] \<and>
   js_trim (textOverlay overlay_app) = ''Hi'' \<and>
   applyTextOverlay failing_load True sample_encoder sample_url ''Hi''
     \<lparr>opt_fontFamily = fontFamily overlay_app, opt_fontSize = fontSize overlay_app,
      opt_textColor = textColor overlay_app, opt_textPosition = textPosition overlay_app\<rparr> =
     Inl ''Failed to load image for text overlay.'' \<and>
   editedImage (applyText failing_load True sample_encoder overlay_app) = None \<and>
   error (applyText failing_load True sample_encoder overlay_app) =
     Some ''Failed to apply text overlay.''"
  by (simp add: overlay_app_def loaded_app_def app_init_def sample_url_def js_trim_def
        is_space_def applyText_def applyTextOverlay_def failing_load_def)

text \<open>
  Claim C10, amended. One run of the effect never changes the pre-text image, and it
  leaves the state as follows. Without a pre-text image the edited image is null. With a
  pre-text image and an overlay text that is empty or white space only, the edited image
  is the pre-text image itself, the same data URI. Otherwise, if \<open>applyTextOverlay\<close>
  resolves, the edited image is its rendering; and if it rejects, the edited image is left
  as it was and the error is set to \<open>Failed to apply text overlay.\<close>
\<close>

theorem applyText_settled:
  fixes s :: app and load :: "string \<Rightarrow> html_image option" and has_ctx :: bool
    and toDataURL :: encoder
  defines "s' \<equiv> applyText load has_ctx toDataURL s"
  defines "options \<equiv> \<lparr>opt_fontFamily = fontFamily s, opt_fontSize = fontSize s,
                        opt_textColor = textColor s, opt_textPosition = textPosition s\<rparr>"
  defines "blank \<equiv> (\<forall>c \<in> set (textOverlay s). is_space c)"
  shows "imageBeforeText s' = imageBeforeText s \<and>
         (falsy (imageBeforeText s) \<longrightarrow> s' = s\<lparr>editedImage := None\<rparr>) \<and>
         (\<forall>before. imageBeforeText s = Some before \<and> before \<noteq> [] \<and> blank \<longrightarrow>
            s' = s\<lparr>editedImage := Some before\<rparr>) \<and>
         (\<forall>before rendering.
            imageBeforeText s = Some before \<and> before \<noteq> [] \<and> \<not> blank \<and>
            applyTextOverlay load has_ctx toDataURL before (textOverlay s) options = Inr rendering \<longrightarrow>
            s' = s\<lparr>editedImage := Some rendering\<rparr>) \<and>
         (\<forall>before message.
            imageBeforeText s = Some before \<and> before \<noteq> [] \<and> \<not> blank \<and>
            applyTextOverlay load has_ctx toDataURL before (textOverlay s) options = Inl message \<longrightarrow>
            s' = s\<lparr>error := Some ''Failed to apply text overlay.''\<rparr>)"
proof -
  have b: "blank \<longleftrightarrow> js_trim (textOverlay s) = []"
    by (simp add: blank_def js_trim_empty_iff)
  show ?thesis
    unfolding b s'_def options_def
    by (cases "imageBeforeText s") (auto simp: applyText_def split: sum.splits)
qed

theorem applyText_settled_witness:
  "falsy (imageBeforeText loaded_app) \<and>
   applyText sample_load True sample_encoder loaded_app = loaded_app\<lparr>editedImage := None\<rparr> \<and>
   imageBeforeText overlay_app = Some sample_url \<and> sample_url \<noteq> [] \<and>
   js_trim ''  '' = [] \<and>
   applyText sample_load True sample_encoder (overlay_app\<lparr>textOverlay := ''  ''\<rparr>) =
     overlay_app\<lparr>textOverlay := ''  '', editedImage := Some sample_url\<rparr> \<and>
   js_trim ''Hi'' = ''Hi'' \<and>
   applyText sample_load True sample_encoder overlay_app =
     overlay_app\<lparr>editedImage := Some ''data:image/png''\<rparr> \<and>
   applyText failing_load True sample_encoder overlay_app =
     overlay_app\<lparr>error := Some ''Failed to apply text overlay.''\<rparr>"
  using applyText_settled [where s = loaded_app and load = sample_load and has_ctx = True
                             and toDataURL = sample_encoder]
    applyText_settled [where s = "overlay_app\<lparr>textOverlay := ''  ''\<rparr>" and load = sample_load
                         and has_ctx = True and toDataURL = sample_encoder]
    applyText_settled [where s = overlay_app and load = sample_load and has_ctx = True
                         and toDataURL = sample_encoder]
    applyText_settled [where s = overlay_app and load = failing_load and has_ctx = True
                         and toDataURL = sample_encoder]
  by (simp add: overlay_app_def loaded_app_def app_init_def sample_url_def is_space_def
        js_trim_def applyTextOverlay_def sample_load_def failing_load_def sample_encoder_def)

section \<open>Requests in flight\<close>

text \<open>
  The Generate button is disabled while a request is loading, so a click then changes
  nothing.
\<close>

lemma click_while_loading:
  "isLoading (sys_app st) \<Longrightarrow> step st ClickGenerate = st"
  by (simp add: generate_disabled_def)

text \<open>
  The Enter key in the prompt field has no such guard: with the editor shown and a prompt
  typed it adds a request, whatever the loading flag says.
\<close>

lemma enter_adds_request:
  "editor_shown (sys_app st) \<Longrightarrow> prompt (sys_app st) \<noteq> [] \<Longrightarrow>
   length (in_flight (step st PressEnter)) = Suc (length (in_flight st))"
  by (auto simp: editor_shown_def call_handleGenerate_def handleGenerate_start_send)

text \<open>
  Claim C4 says that no sequence of clicks on Generate and of Enter keys starts a second
  call while one is in flight. The key handler of the prompt field calls \<open>handleGenerate\<close>
  without looking at the loading flag: after upload, crop and a typed prompt, one Enter
  leaves one request in flight with the loading flag set, a second Enter makes it two,
  whereas a click on the button at that point leaves it at one.
\<close>

theorem enter_starts_second_request:
  "isLoading (sys_app (run (butlast double_enter))) \<and>
   length (in_flight (run (butlast double_enter))) = 1 \<and>
   length (in_flight (run double_enter)) = 2 \<and>
   length (in_flight (run enter_then_click)) = 1"
  by (simp add: run_def double_enter_def enter_then_click_def system_init_def app_init_def
        jpeg_file_def sample_url_def uploader_shown_def cropper_shown_def editor_shown_def
        generate_disabled_def call_handleGenerate_def handleGenerate_start_def
        handleFileChange_def fileToDataUrl_def resetEditorState_def handleCropComplete_def)

end
